theory Spec2Isabelle
  imports Complex_Main "HOL-Library.Word" "HOL-Library.Sublist"
begin

unbundle bit_operations_syntax

section \<open>Conventions of the embedding\<close>

text \<open>
  The TypeScript sources are embedded function by function, with the names of the source.
  \<^item> A JavaScript string is the list of its UTF-16 code units (\<open>jsstring\<close>);
    \<open>charCodeAt\<close> past the end is \<open>NaN\<close>, modelled as \<open>None\<close>.
  \<^item> The bitwise operators \<open>&\<close>, \<open>|\<close>, \<open><<\<close>, \<open>>>\<close> and \<open>~\<close> work on
    32-bit two's complement integers (\<open>int32\<close>); a shift count is taken modulo 32.
  \<^item> Every other JavaScript number is an IEEE double. Integer-valued ones (the running
    latitude and longitude sums, epoch seconds) are modelled as \<open>int\<close>, the others
    (degrees, drawing coordinates) as \<open>real\<close>: rounding, infinities and \<open>NaN\<close> are
    outside the model, arithmetic is exact.
  \<^item> A thrown exception is the \<open>Inl\<close> of a sum; module-level state and the network are
    passed explicitly.
\<close>

type_synonym jsstring = "nat list"
type_synonym int32 = "32 word"

definition fromAscii :: "string \<Rightarrow> jsstring" where
  "fromAscii s = map of_char s"

definition charCodeAt :: "jsstring \<Rightarrow> nat \<Rightarrow> nat option" where
  "charCodeAt s i = (if i < length s then Some (s ! i) else None)"

text \<open>\<open>x << n\<close> and \<open>x >> n\<close> on 32-bit integers.\<close>

definition shl32 :: "int32 \<Rightarrow> nat \<Rightarrow> int32" where
  "shl32 x n = push_bit (n mod 32) x"

definition sar32 :: "int32 \<Rightarrow> nat \<Rightarrow> int32" where
  "sar32 x n = signed_drop_bit (n mod 32) x"

text \<open>Decimal digits of a natural number, as string interpolation prints an integer.\<close>

fun showNat :: "nat \<Rightarrow> string" where
  "showNat n =
     (if n < 10 then [char_of (48 + n)]
      else showNat (n div 10) @ [char_of (48 + n mod 10)])"

declare showNat.simps [simp del]

section \<open>decodePolyline (mission-client)\<close>

text \<open>
  One \<open>do { b = encoded.charCodeAt(index++) - 63; result |= (b & 0x1f) << shift;
  shift += 5; } while (b >= 0x20)\<close> loop. It returns the index after the loop and the
  accumulated \<open>result\<close>. Past the end of the string \<open>b\<close> is \<open>NaN\<close>: \<open>NaN & 0x1f\<close> is 0,
  so \<open>result\<close> is unchanged, and \<open>NaN >= 0x20\<close> is false, so the loop ends; \<open>index\<close> has
  been incremented all the same.
\<close>

function readChunks :: "jsstring \<Rightarrow> nat \<Rightarrow> nat \<Rightarrow> int32 \<Rightarrow> nat \<times> int32" where
  "readChunks encoded index shift result =
     (case charCodeAt encoded index of
        None \<Rightarrow> (index + 1, result)
      | Some c \<Rightarrow>
          (let b = int c - 63;
               result' = result OR shl32 (word_of_int b AND 0x1f) shift
           in if b \<ge> 0x20 then readChunks encoded (index + 1) (shift + 5) result'
              else (index + 1, result')))"
  by pat_completeness auto
termination
  by (relation "measure (\<lambda>(encoded, index, shift, result). length encoded - index)")
     (auto simp: charCodeAt_def split: if_splits)

declare readChunks.simps [simp del]

text \<open>\<open>(result & 1) ? ~(result >> 1) : result >> 1\<close>, read as a signed number.\<close>

definition unzigzag :: "int32 \<Rightarrow> int" where
  "unzigzag result =
     sint (if result AND 1 \<noteq> 0 then NOT (sar32 result 1) else sar32 result 1)"

text \<open>
  The outer \<open>while (index < len)\<close> loop: each pass reads a latitude delta, then a
  longitude delta, and pushes one pair.
\<close>

function decodeLoop ::
  "jsstring \<Rightarrow> nat \<Rightarrow> int \<Rightarrow> int \<Rightarrow> (real \<times> real) list \<Rightarrow> (real \<times> real) list" where
  "decodeLoop encoded index lat lng coordinates =
     (if index < length encoded then
        (let (index1, result1) = readChunks encoded index 0 0;
             lat' = lat + unzigzag result1;
             (index2, result2) = readChunks encoded index1 0 0;
             lng' = lng + unzigzag result2
         in decodeLoop encoded index2 lat' lng'
              (coordinates @ [(real_of_int lat' / 100000, real_of_int lng' / 100000)]))
      else coordinates)"
  by pat_completeness auto
termination
proof (relation "measure (\<lambda>(encoded, index, lat, lng, coordinates). length encoded - index)")
  show "wf (measure (\<lambda>(encoded, index, lat, lng, coordinates). length encoded - index))"
    by simp
next
  fix encoded :: jsstring and index :: nat and lat lng :: int
    and coordinates :: "(real \<times> real) list"
    and x index1 result1 lat' y index2 result2 lng'
  assume more: "index < length encoded"
    and x: "x = readChunks encoded index 0 0" "(index1, result1) = x"
    and y: "y = readChunks encoded index1 0 0" "(index2, result2) = y"
  have advance: "i < fst (readChunks enc i s r)" for enc i s r
  proof (induction enc i s r rule: readChunks.induct)
    case (1 enc i s r)
    show ?case
    proof (cases "charCodeAt enc i")
      case None
      then show ?thesis by (subst readChunks.simps) simp
    next
      case (Some c)
      show ?thesis
      proof (cases "int c - 63 \<ge> 0x20")
        case True
        with Some 1 have "i + 1 < fst (readChunks enc (i + 1) (s + 5)
            (r OR shl32 (word_of_int (int c - 63) AND 0x1f) s))"
          by simp
        with Some True show ?thesis by (subst readChunks.simps) (simp add: Let_def)
      next
        case False
        with Some show ?thesis by (subst readChunks.simps) (simp add: Let_def)
      qed
    qed
  qed
  have "index < index1"
    using advance [of index encoded 0 0] x by (metis fst_conv)
  moreover have "index1 < index2"
    using advance [of index1 encoded 0 0] y by (metis fst_conv)
  ultimately show "((encoded, index2, lat', lng',
        coordinates @ [(real_of_int lat' / 100000, real_of_int lng' / 100000)]),
       (encoded, index, lat, lng, coordinates))
      \<in> measure (\<lambda>(encoded, index, lat, lng, coordinates). length encoded - index)"
    using more by simp
qed

declare decodeLoop.simps [simp del]

definition decodePolyline :: "jsstring \<Rightarrow> (real \<times> real) list" where
  "decodePolyline encoded = decodeLoop encoded 0 0 0 []"

section \<open>buildSvgPath (mission-client)\<close>

text \<open>
  \<open>Number.prototype.toFixed\<close> for a finite number below \<open>10^21\<close> in magnitude: the sign,
  then the integer \<open>n\<close> nearest to \<open>|x| * 10^f\<close> (the larger one on a tie), printed with
  \<open>f\<close> fraction digits.
\<close>

definition toFixed :: "real \<Rightarrow> nat \<Rightarrow> string" where
  "toFixed x f =
     (let n = nat \<lfloor>\<bar>x\<bar> * 10 ^ f + 1 / 2\<rfloor>;
          m = showNat n;
          m' = (if f \<noteq> 0 \<and> length m \<le> f
                then replicate (f + 1 - length m) CHR ''0'' @ m else m);
          k = length m' - f
      in (if x < 0 then ''-'' else '''')
         @ (if f \<noteq> 0 then take k m' @ ''.'' @ drop k m' else m'))"

text \<open>\<open>Array.prototype.join\<close> on strings.\<close>

fun join :: "string \<Rightarrow> string list \<Rightarrow> string" where
  "join sep [] = []"
| "join sep [s] = s"
| "join sep (s # t # ss) = s @ sep @ join sep (t # ss)"

text \<open>
  \<open>Math.min(...xs)\<close> and \<open>Math.max(...xs)\<close>. With no argument JavaScript returns an
  infinity; \<open>buildSvgPath\<close> calls them on two or more numbers only.
\<close>

fun Math_min :: "real list \<Rightarrow> real" where
  "Math_min (x # xs) = fold min xs x"

fun Math_max :: "real list \<Rightarrow> real" where
  "Math_max (x # xs) = fold max xs x"

text \<open>\<open>a || b\<close> on numbers: \<open>b\<close> when \<open>a\<close> is zero.\<close>

definition orElse :: "real \<Rightarrow> real \<Rightarrow> real" where
  "orElse a b = (if a = 0 then b else a)"

record bbox =
  minX :: real
  maxX :: real
  minY :: real
  maxY :: real

text \<open>The local constants of \<open>buildSvgPath\<close> after its guard, in the order of the source.\<close>

record locals = bbox +
  dx :: real
  dy :: real
  innerW :: real
  innerH :: real
  scale :: real
  offsetX :: real
  offsetY :: real
  mapped :: "(real \<times> real) list"

record svgPath =
  d :: string
  bbox :: "bbox option"

definition buildSvgPath_locals ::
  "(real \<times> real) list \<Rightarrow> real \<Rightarrow> real \<Rightarrow> real \<Rightarrow> locals" where
  "buildSvgPath_locals points width height padding =
     (let xs = map snd points;
          ys = map fst points;
          minX = Math_min xs;
          maxX = Math_max xs;
          minY = Math_min ys;
          maxY = Math_max ys;
          dx = orElse (maxX - minX) 1;
          dy = orElse (maxY - minY) 1;
          innerW = max 1 (width - padding * 2);
          innerH = max 1 (height - padding * 2);
          scale = min (innerW / dx) (innerH / dy);
          offsetX = padding + (innerW - dx * scale) / 2;
          offsetY = padding + (innerH - dy * scale) / 2;
          mapped = map (\<lambda>(lat, lng). (offsetX + (lng - minX) * scale,
                                        offsetY + (maxY - lat) * scale)) points
      in \<lparr>minX = minX, maxX = maxX, minY = minY, maxY = maxY,
          dx = dx, dy = dy, innerW = innerW, innerH = innerH, scale = scale,
          offsetX = offsetX, offsetY = offsetY, mapped = mapped\<rparr>)"

text \<open>
  The function itself; \<open>bbox: null\<close> is \<open>None\<close>. (The default \<open>padding = 16\<close> of the
  source is the caller's to pass.)
\<close>

definition buildSvgPath :: "(real \<times> real) list \<Rightarrow> real \<Rightarrow> real \<Rightarrow> real \<Rightarrow> svgPath" where
  "buildSvgPath points width height padding =
     (if length points < 2 then \<lparr>d = '''', bbox = None\<rparr>
      else
        let L = buildSvgPath_locals points width height padding
        in \<lparr>d = join '' ''
                 (map (\<lambda>(i, (x, y)). (if i = 0 then ''M'' else ''L'') @ '' ''
                                        @ toFixed x 2 @ '' '' @ toFixed y 2)
                      (enumerate 0 (mapped L))),
            bbox = Some (bbox.truncate L)\<rparr>)"







section \<open>getAccessToken (api/strava/route)\<close>

text \<open>
  The function with the in-memory token cache, which the route handler \<open>GET(req)\<close> calls
  before it fetches a route.
\<close>

text \<open>The module-level \<open>cachedAccessToken\<close> slot.\<close>

record cachedToken =
  token :: string
  expiresAt :: int

text \<open>The four variables read from \<open>process.env\<close>; \<open>None\<close> is \<open>undefined\<close>.\<close>

record env =
  STRAVA_ACCESS_TOKEN :: "string option"
  STRAVA_CLIENT_ID :: "string option"
  STRAVA_CLIENT_SECRET :: "string option"
  STRAVA_REFRESH_TOKEN :: "string option"

text \<open>Truthiness of such a value: defined and not the empty string.\<close>

definition truthy :: "string option \<Rightarrow> bool" where
  "truthy v = (case v of None \<Rightarrow> False | Some s \<Rightarrow> s \<noteq> [])"

definition envStr :: "string option \<Rightarrow> string" where
  "envStr v = (case v of None \<Rightarrow> [] | Some s \<Rightarrow> s)"

text \<open>
  What the token endpoint answers: the HTTP status, the body as \<open>res.text()\<close> gives it,
  and the body as \<open>res.json()\<close> gives it (\<open>None\<close> when it does not parse).
  \<open>res.ok\<close> is a status from 200 to 299.
\<close>

record tokenData =
  access_token :: string
  expires_at :: int

record response =
  status :: nat
  body :: string
  json :: "tokenData option"

definition ok :: "response \<Rightarrow> bool" where
  "ok res = (200 \<le> status res \<and> status res \<le> 299)"

record request =
  url :: string
  form :: "(string \<times> string) list"

text \<open>\<open>await fetch(...)\<close> either rejects (no response at all) or resolves to a response.\<close>

datatype fetched = Rejected | Resolved response

datatype error = Error string | TypeError | SyntaxError

text \<open>The state a call may change: the cache slot, and the requests sent so far.\<close>

record state =
  cachedAccessToken :: "cachedToken option"
  requests :: "request list"

definition missingEnvMessage :: string where
  "missingEnvMessage =
     ''Missing Strava env vars. Provide STRAVA_ACCESS_TOKEN OR (STRAVA_CLIENT_ID, STRAVA_CLIENT_SECRET, STRAVA_REFRESH_TOKEN).''"

definition refreshRequest :: "string \<Rightarrow> string \<Rightarrow> string \<Rightarrow> request" where
  "refreshRequest clientId clientSecret refreshToken =
     \<lparr>url = ''https://www.strava.com/oauth/token'',
      form = [(''client_id'', clientId), (''client_secret'', clientSecret),
              (''grant_type'', ''refresh_token''), (''refresh_token'', refreshToken)]\<rparr>"

text \<open>
  \<open>getAccessToken\<close>, given the environment, the value of \<open>Date.now()\<close> in milliseconds
  and the network. It returns the token or the error thrown, and the state afterwards.
\<close>

definition getAccessToken ::
  "env \<Rightarrow> int \<Rightarrow> (request \<Rightarrow> fetched) \<Rightarrow> state \<Rightarrow> (error + string) \<times> state" where
  "getAccessToken e dateNow fetch st =
     (if truthy (STRAVA_ACCESS_TOKEN e) then (Inr (envStr (STRAVA_ACCESS_TOKEN e)), st)
      else
        let clientId = STRAVA_CLIENT_ID e;
            clientSecret = STRAVA_CLIENT_SECRET e;
            refreshToken = STRAVA_REFRESH_TOKEN e
        in
          if \<not> truthy clientId \<or> \<not> truthy clientSecret \<or> \<not> truthy refreshToken
          then (Inl (Error missingEnvMessage), st)
          else
            let now = dateNow div 1000 in
            case (case cachedAccessToken st of
                    Some c \<Rightarrow> if expiresAt c - 30 > now then Some (token c) else None
                  | None \<Rightarrow> None) of
              Some t \<Rightarrow> (Inr t, st)
            | None \<Rightarrow>
                let req = refreshRequest (envStr clientId) (envStr clientSecret)
                            (envStr refreshToken);
                    st1 = (st\<lparr>requests := requests st @ [req]\<rparr>)
                in (case fetch req of
                      Rejected \<Rightarrow> (Inl TypeError, st1)
                    | Resolved res \<Rightarrow>
                        if \<not> ok res
                        then (Inl (Error (''Strava token refresh failed (''
                                          @ showNat (status res) @ ''): '' @ body res)), st1)
                        else (case json res of
                                None \<Rightarrow> (Inl SyntaxError, st1)
                              | Some data \<Rightarrow>
                                  (Inr (access_token data),
                                   (st1\<lparr>cachedAccessToken :=
                                          Some \<lparr>token = access_token data,
                                                expiresAt = expires_at data\<rparr>\<rparr>)))))"

section \<open>Decoding the reference polyline\<close>

text \<open>
  Claim C2. Decoding the reference polyline \<open>_p~iF~ps|U_ulLnnqC_mqNvxq`@\<close> yields exactly
  the three coordinates (38.5, -120.2), (40.7, -120.95), (43.252, -126.453), in this order.
\<close>

theorem decodePolyline_reference:
  "decodePolyline (fromAscii ''_p~iF~ps|U_ulLnnqC_mqNvxq`@'')
     = [(38.5, -120.2), (40.7, -120.95), (43.252, -126.453)]"
  by code_simp

section \<open>The token broker\<close>

text \<open>Two facts shared by the theorems below: the configuration error, and the refresh flow
  once the configuration is complete.\<close>

lemma getAccessToken_missing:
  assumes "\<not> truthy (STRAVA_ACCESS_TOKEN e)"
    and "\<not> truthy (STRAVA_CLIENT_ID e) \<or> \<not> truthy (STRAVA_CLIENT_SECRET e)
         \<or> \<not> truthy (STRAVA_REFRESH_TOKEN e)"
  shows "getAccessToken e dateNow fetch st = (Inl (Error missingEnvMessage), st)"
  using assms by (auto simp: getAccessToken_def Let_def)

lemma getAccessToken_refresh_flow:
  assumes "\<not> truthy (STRAVA_ACCESS_TOKEN e)"
    and "truthy (STRAVA_CLIENT_ID e)" and "truthy (STRAVA_CLIENT_SECRET e)"
    and "truthy (STRAVA_REFRESH_TOKEN e)"
  shows "getAccessToken e dateNow fetch st =
     (case (case cachedAccessToken st of
              Some c \<Rightarrow> if expiresAt c - 30 > dateNow div 1000 then Some (token c) else None
            | None \<Rightarrow> None) of
        Some t \<Rightarrow> (Inr t, st)
      | None \<Rightarrow>
          let req = refreshRequest (envStr (STRAVA_CLIENT_ID e)) (envStr (STRAVA_CLIENT_SECRET e))
                      (envStr (STRAVA_REFRESH_TOKEN e));
              st1 = (st\<lparr>requests := requests st @ [req]\<rparr>)
          in (case fetch req of
                Rejected \<Rightarrow> (Inl TypeError, st1)
              | Resolved res \<Rightarrow>
                  if \<not> ok res
                  then (Inl (Error (''Strava token refresh failed (''
                                    @ showNat (status res) @ ''): '' @ body res)), st1)
                  else (case json res of
                          None \<Rightarrow> (Inl SyntaxError, st1)
                        | Some data \<Rightarrow>
                            (Inr (access_token data),
                             (st1\<lparr>cachedAccessToken :=
                                    Some \<lparr>token = access_token data,
                                          expiresAt = expires_at data\<rparr>\<rparr>)))))"
  using assms by (simp add: getAccessToken_def Let_def)

text \<open>
  Claim C1. With no static token and the three credentials present, a cached token whose
  \<open>expiresAt - 30\<close> is strictly greater than the current epoch second is returned and
  the state is left as it was: no request is sent. When \<open>expiresAt\<close> is exactly
  \<open>now + 30\<close> the cached token is not used: the call is the refresh, which sends the
  refresh request and returns what the answer gives (the new token, with the cache
  replaced, when the answer is \<open>ok\<close> and parses; the error otherwise).
\<close>

theorem getAccessToken_cache_boundary:
  assumes "\<not> truthy (STRAVA_ACCESS_TOKEN e)"
    and "truthy (STRAVA_CLIENT_ID e)" and "truthy (STRAVA_CLIENT_SECRET e)"
    and "truthy (STRAVA_REFRESH_TOKEN e)"
    and "cachedAccessToken st = Some c"
  shows "(expiresAt c - 30 > dateNow div 1000 \<longrightarrow>
            getAccessToken e dateNow fetch st = (Inr (token c), st))
       \<and> (expiresAt c = dateNow div 1000 + 30 \<longrightarrow>
            getAccessToken e dateNow fetch st =
              (let req = refreshRequest (envStr (STRAVA_CLIENT_ID e))
                           (envStr (STRAVA_CLIENT_SECRET e)) (envStr (STRAVA_REFRESH_TOKEN e));
                   st1 = (st\<lparr>requests := requests st @ [req]\<rparr>)
               in (case fetch req of
                     Rejected \<Rightarrow> (Inl TypeError, st1)
                   | Resolved res \<Rightarrow>
                       if \<not> ok res
                       then (Inl (Error (''Strava token refresh failed (''
                                         @ showNat (status res) @ ''): '' @ body res)), st1)
                       else (case json res of
                               None \<Rightarrow> (Inl SyntaxError, st1)
                             | Some data \<Rightarrow>
                                 (Inr (access_token data),
                                  (st1\<lparr>cachedAccessToken :=
                                         Some \<lparr>token = access_token data,
                                               expiresAt = expires_at data\<rparr>\<rparr>))))))"
proof (intro conjI impI)
  assume "expiresAt c - 30 > dateNow div 1000"
  with assms show "getAccessToken e dateNow fetch st = (Inr (token c), st)"
    by (simp add: getAccessToken_refresh_flow)
next
  assume "expiresAt c = dateNow div 1000 + 30"
  with assms(5) have "(case cachedAccessToken st of
        Some c \<Rightarrow> if expiresAt c - 30 > dateNow div 1000 then Some (token c) else None
      | None \<Rightarrow> None) = None"
    by simp
  then show "getAccessToken e dateNow fetch st =
      (let req = refreshRequest (envStr (STRAVA_CLIENT_ID e))
                   (envStr (STRAVA_CLIENT_SECRET e)) (envStr (STRAVA_REFRESH_TOKEN e));
           st1 = (st\<lparr>requests := requests st @ [req]\<rparr>)
       in (case fetch req of
             Rejected \<Rightarrow> (Inl TypeError, st1)
           | Resolved res \<Rightarrow>
               if \<not> ok res
               then (Inl (Error (''Strava token refresh failed (''
                                 @ showNat (status res) @ ''): '' @ body res)), st1)
               else (case json res of
                       None \<Rightarrow> (Inl SyntaxError, st1)
                     | Some data \<Rightarrow>
                         (Inr (access_token data),
                          (st1\<lparr>cachedAccessToken :=
                                 Some \<lparr>token = access_token data,
                                       expiresAt = expires_at data\<rparr>\<rparr>)))))"
    by (simp only: getAccessToken_refresh_flow [OF assms(1-4)] option.case)
qed

theorem getAccessToken_cache_boundary_witness:
  "getAccessToken
      \<lparr>STRAVA_ACCESS_TOKEN = None, STRAVA_CLIENT_ID = Some ''id'',
       STRAVA_CLIENT_SECRET = Some ''secret'', STRAVA_REFRESH_TOKEN = Some ''refresh''\<rparr>
      1000999
      (\<lambda>req. Resolved \<lparr>status = 200, body = '''',
                           json = Some \<lparr>access_token = ''new'', expires_at = 22600\<rparr>\<rparr>)
      \<lparr>cachedAccessToken = Some \<lparr>token = ''cached'', expiresAt = 1031\<rparr>, requests = []\<rparr>
    = (Inr ''cached'',
       \<lparr>cachedAccessToken = Some \<lparr>token = ''cached'', expiresAt = 1031\<rparr>, requests = []\<rparr>)
   \<and> getAccessToken
      \<lparr>STRAVA_ACCESS_TOKEN = None, STRAVA_CLIENT_ID = Some ''id'',
       STRAVA_CLIENT_SECRET = Some ''secret'', STRAVA_REFRESH_TOKEN = Some ''refresh''\<rparr>
      1000999
      (\<lambda>req. Resolved \<lparr>status = 200, body = '''',
                           json = Some \<lparr>access_token = ''new'', expires_at = 22600\<rparr>\<rparr>)
      \<lparr>cachedAccessToken = Some \<lparr>token = ''cached'', expiresAt = 1030\<rparr>, requests = []\<rparr>
    = (Inr ''new'',
       \<lparr>cachedAccessToken = Some \<lparr>token = ''new'', expiresAt = 22600\<rparr>,
        requests = [refreshRequest ''id'' ''secret'' ''refresh'']\<rparr>)"
  using getAccessToken_cache_boundary
      [of "\<lparr>STRAVA_ACCESS_TOKEN = None, STRAVA_CLIENT_ID = Some ''id'',
            STRAVA_CLIENT_SECRET = Some ''secret'', STRAVA_REFRESH_TOKEN = Some ''refresh''\<rparr>"
          "\<lparr>cachedAccessToken = Some \<lparr>token = ''cached'', expiresAt = 1031\<rparr>, requests = []\<rparr>"
          "\<lparr>token = ''cached'', expiresAt = 1031\<rparr>" 1000999
          "\<lambda>req. Resolved \<lparr>status = 200, body = '''',
                           json = Some \<lparr>access_token = ''new'', expires_at = 22600\<rparr>\<rparr>"]
    getAccessToken_cache_boundary
      [of "\<lparr>STRAVA_ACCESS_TOKEN = None, STRAVA_CLIENT_ID = Some ''id'',
            STRAVA_CLIENT_SECRET = Some ''secret'', STRAVA_REFRESH_TOKEN = Some ''refresh''\<rparr>"
          "\<lparr>cachedAccessToken = Some \<lparr>token = ''cached'', expiresAt = 1030\<rparr>, requests = []\<rparr>"
          "\<lparr>token = ''cached'', expiresAt = 1030\<rparr>" 1000999
          "\<lambda>req. Resolved \<lparr>status = 200, body = '''',
                           json = Some \<lparr>access_token = ''new'', expires_at = 22600\<rparr>\<rparr>"]
  by (simp add: truthy_def envStr_def ok_def)

text \<open>
  Claim C4. When the token endpoint answers the refresh request with a status outside
  200..299, the cache slot after the call is the cache slot before it. In every call the
  slot is either left as it was or replaced as a whole by the token and expiry of a
  response that was \<open>ok\<close> and parsed.
\<close>

theorem getAccessToken_failed_refresh:
  "(fetch (refreshRequest (envStr (STRAVA_CLIENT_ID e)) (envStr (STRAVA_CLIENT_SECRET e))
             (envStr (STRAVA_REFRESH_TOKEN e))) = Resolved res \<and> \<not> ok res \<longrightarrow>
      cachedAccessToken (snd (getAccessToken e dateNow fetch st)) = cachedAccessToken st)
   \<and> (cachedAccessToken (snd (getAccessToken e dateNow fetch st)) = cachedAccessToken st
      \<or> (\<exists>res' data.
            fetch (refreshRequest (envStr (STRAVA_CLIENT_ID e)) (envStr (STRAVA_CLIENT_SECRET e))
                     (envStr (STRAVA_REFRESH_TOKEN e))) = Resolved res'
            \<and> ok res' \<and> json res' = Some data
            \<and> cachedAccessToken (snd (getAccessToken e dateNow fetch st)) =
                Some \<lparr>token = access_token data, expiresAt = expires_at data\<rparr>))"
  by (auto simp: getAccessToken_def Let_def split: option.splits fetched.splits if_splits)

theorem getAccessToken_failed_refresh_witness:
  "\<not> ok \<lparr>status = 401, body = ''denied'', json = None\<rparr>
   \<and> getAccessToken
      \<lparr>STRAVA_ACCESS_TOKEN = None, STRAVA_CLIENT_ID = Some ''id'',
       STRAVA_CLIENT_SECRET = Some ''secret'', STRAVA_REFRESH_TOKEN = Some ''refresh''\<rparr>
      1000999 (\<lambda>req. Resolved \<lparr>status = 401, body = ''denied'', json = None\<rparr>)
      \<lparr>cachedAccessToken = Some \<lparr>token = ''cached'', expiresAt = 1030\<rparr>, requests = []\<rparr>
     = (Inl (Error ''Strava token refresh failed (401): denied''),
        \<lparr>cachedAccessToken = Some \<lparr>token = ''cached'', expiresAt = 1030\<rparr>,
         requests = [refreshRequest ''id'' ''secret'' ''refresh'']\<rparr>)
   \<and> cachedAccessToken (snd (getAccessToken
      \<lparr>STRAVA_ACCESS_TOKEN = None, STRAVA_CLIENT_ID = Some ''id'',
       STRAVA_CLIENT_SECRET = Some ''secret'', STRAVA_REFRESH_TOKEN = Some ''refresh''\<rparr>
      1000999 (\<lambda>req. Resolved \<lparr>status = 401, body = ''denied'', json = None\<rparr>)
      \<lparr>cachedAccessToken = Some \<lparr>token = ''cached'', expiresAt = 1030\<rparr>, requests = []\<rparr>))
     = Some \<lparr>token = ''cached'', expiresAt = 1030\<rparr>"
proof -
  have eval: "getAccessToken
      \<lparr>STRAVA_ACCESS_TOKEN = None, STRAVA_CLIENT_ID = Some ''id'',
       STRAVA_CLIENT_SECRET = Some ''secret'', STRAVA_REFRESH_TOKEN = Some ''refresh''\<rparr>
      1000999 (\<lambda>req. Resolved \<lparr>status = 401, body = ''denied'', json = None\<rparr>)
      \<lparr>cachedAccessToken = Some \<lparr>token = ''cached'', expiresAt = 1030\<rparr>, requests = []\<rparr>
     = (Inl (Error ''Strava token refresh failed (401): denied''),
        \<lparr>cachedAccessToken = Some \<lparr>token = ''cached'', expiresAt = 1030\<rparr>,
         requests = [refreshRequest ''id'' ''secret'' ''refresh'']\<rparr>)"
    by code_simp
  show ?thesis
    using getAccessToken_failed_refresh
      [of "\<lambda>req. Resolved \<lparr>status = 401, body = ''denied'', json = None\<rparr>"
          "\<lparr>STRAVA_ACCESS_TOKEN = None, STRAVA_CLIENT_ID = Some ''id'',
            STRAVA_CLIENT_SECRET = Some ''secret'', STRAVA_REFRESH_TOKEN = Some ''refresh''\<rparr>"
          "\<lparr>status = 401, body = ''denied'', json = None\<rparr>" 1000999
          "\<lparr>cachedAccessToken = Some \<lparr>token = ''cached'', expiresAt = 1030\<rparr>, requests = []\<rparr>"]
      eval
    by (simp add: ok_def)
qed

text \<open>
  Claim C8. When \<open>STRAVA_ACCESS_TOKEN\<close> is set (to a non-empty string), the call returns
  it whatever the cache holds and whatever the clock says; the state is untouched.
\<close>

theorem getAccessToken_static_token:
  assumes "STRAVA_ACCESS_TOKEN e = Some t" and "t \<noteq> []"
  shows "getAccessToken e dateNow fetch st = (Inr t, st)"
  using assms by (simp add: getAccessToken_def truthy_def envStr_def)

theorem getAccessToken_static_token_witness:
  "getAccessToken
      \<lparr>STRAVA_ACCESS_TOKEN = Some ''static'', STRAVA_CLIENT_ID = Some ''id'',
       STRAVA_CLIENT_SECRET = Some ''secret'', STRAVA_REFRESH_TOKEN = Some ''refresh''\<rparr>
      1000999 (\<lambda>req. Rejected)
      \<lparr>cachedAccessToken = Some \<lparr>token = ''stale'', expiresAt = 5\<rparr>, requests = []\<rparr>
    = (Inr ''static'',
       \<lparr>cachedAccessToken = Some \<lparr>token = ''stale'', expiresAt = 5\<rparr>, requests = []\<rparr>)"
  using getAccessToken_static_token
      [of "\<lparr>STRAVA_ACCESS_TOKEN = Some ''static'', STRAVA_CLIENT_ID = Some ''id'',
            STRAVA_CLIENT_SECRET = Some ''secret'', STRAVA_REFRESH_TOKEN = Some ''refresh''\<rparr>"
          "''static''" 1000999 "\<lambda>req. Rejected"
          "\<lparr>cachedAccessToken = Some \<lparr>token = ''stale'', expiresAt = 5\<rparr>, requests = []\<rparr>"]
  by simp

text \<open>
  Claim C10. With no static token and one of the three credentials absent, the call throws
  the configuration error even though the cache holds a token with
  \<open>expiresAt - 30 > now\<close>: the credentials are checked before the cache is read.
\<close>

theorem getAccessToken_credentials_before_cache:
  assumes "\<not> truthy (STRAVA_ACCESS_TOKEN e)"
    and "\<not> truthy (STRAVA_CLIENT_ID e) \<or> \<not> truthy (STRAVA_CLIENT_SECRET e)
         \<or> \<not> truthy (STRAVA_REFRESH_TOKEN e)"
    and "cachedAccessToken st = Some c"
    and "expiresAt c - 30 > dateNow div 1000"
  shows "getAccessToken e dateNow fetch st = (Inl (Error missingEnvMessage), st)"
  using assms(1,2) by (rule getAccessToken_missing)

theorem getAccessToken_credentials_before_cache_witness:
  "getAccessToken
      \<lparr>STRAVA_ACCESS_TOKEN = None, STRAVA_CLIENT_ID = Some ''id'',
       STRAVA_CLIENT_SECRET = Some '''', STRAVA_REFRESH_TOKEN = Some ''refresh''\<rparr>
      1000999 (\<lambda>req. Rejected)
      \<lparr>cachedAccessToken = Some \<lparr>token = ''cached'', expiresAt = 5000\<rparr>, requests = []\<rparr>
    = (Inl (Error missingEnvMessage),
       \<lparr>cachedAccessToken = Some \<lparr>token = ''cached'', expiresAt = 5000\<rparr>, requests = []\<rparr>)"
  using getAccessToken_credentials_before_cache
      [of "\<lparr>STRAVA_ACCESS_TOKEN = None, STRAVA_CLIENT_ID = Some ''id'',
            STRAVA_CLIENT_SECRET = Some '''', STRAVA_REFRESH_TOKEN = Some ''refresh''\<rparr>"
          "\<lparr>cachedAccessToken = Some \<lparr>token = ''cached'', expiresAt = 5000\<rparr>, requests = []\<rparr>"
          "\<lparr>token = ''cached'', expiresAt = 5000\<rparr>" 1000999 "\<lambda>req. Rejected"]
  by (simp add: truthy_def)

text \<open>
  Claim C5 says that the message of the configuration error enumerates exactly the
  credentials that are missing. It does not: with only \<open>STRAVA_CLIENT_ID\<close> missing,
  the message names \<open>STRAVA_CLIENT_SECRET\<close> too, which is present.
\<close>

theorem getAccessToken_message_counterexample:
  "getAccessToken
      \<lparr>STRAVA_ACCESS_TOKEN = None, STRAVA_CLIENT_ID = None,
       STRAVA_CLIENT_SECRET = Some ''secret'', STRAVA_REFRESH_TOKEN = Some ''refresh''\<rparr>
      1000999 (\<lambda>req. Rejected) \<lparr>cachedAccessToken = None, requests = []\<rparr>
    = (Inl (Error ''Missing Strava env vars. Provide STRAVA_ACCESS_TOKEN OR (STRAVA_CLIENT_ID, STRAVA_CLIENT_SECRET, STRAVA_REFRESH_TOKEN).''),
       \<lparr>cachedAccessToken = None, requests = []\<rparr>)
   \<and> truthy (Some ''secret'')
   \<and> sublist ''STRAVA_CLIENT_SECRET''
        ''Missing Strava env vars. Provide STRAVA_ACCESS_TOKEN OR (STRAVA_CLIENT_ID, STRAVA_CLIENT_SECRET, STRAVA_REFRESH_TOKEN).''"
  by code_simp

text \<open>
  Claim C5, amended. With no static token and at least one of the three credentials absent,
  the call fails with an error whose message is one fixed text, the same whichever
  credentials are missing; it names all three required variables.
\<close>

theorem getAccessToken_missing_message:
  assumes "\<not> truthy (STRAVA_ACCESS_TOKEN e)"
    and "\<not> truthy (STRAVA_CLIENT_ID e) \<or> \<not> truthy (STRAVA_CLIENT_SECRET e)
         \<or> \<not> truthy (STRAVA_REFRESH_TOKEN e)"
  shows "fst (getAccessToken e dateNow fetch st) = Inl (Error missingEnvMessage)
       \<and> sublist ''STRAVA_CLIENT_ID'' missingEnvMessage
       \<and> sublist ''STRAVA_CLIENT_SECRET'' missingEnvMessage
       \<and> sublist ''STRAVA_REFRESH_TOKEN'' missingEnvMessage"
proof -
  have "sublist ''STRAVA_CLIENT_ID'' missingEnvMessage" by code_simp
  moreover have "sublist ''STRAVA_CLIENT_SECRET'' missingEnvMessage" by code_simp
  moreover have "sublist ''STRAVA_REFRESH_TOKEN'' missingEnvMessage" by code_simp
  ultimately show ?thesis
    using getAccessToken_missing [OF assms] by simp
qed

theorem getAccessToken_missing_message_witness:
  "fst (getAccessToken
      \<lparr>STRAVA_ACCESS_TOKEN = None, STRAVA_CLIENT_ID = None,
       STRAVA_CLIENT_SECRET = Some ''secret'', STRAVA_REFRESH_TOKEN = Some ''refresh''\<rparr>
      1000999 (\<lambda>req. Rejected) \<lparr>cachedAccessToken = None, requests = []\<rparr>)
    = Inl (Error missingEnvMessage)
   \<and> fst (getAccessToken
      \<lparr>STRAVA_ACCESS_TOKEN = Some '''', STRAVA_CLIENT_ID = Some ''id'',
       STRAVA_CLIENT_SECRET = Some ''secret'', STRAVA_REFRESH_TOKEN = None\<rparr>
      1000999 (\<lambda>req. Rejected) \<lparr>cachedAccessToken = None, requests = []\<rparr>)
    = Inl (Error missingEnvMessage)"
  using getAccessToken_missing_message
      [of "\<lparr>STRAVA_ACCESS_TOKEN = None, STRAVA_CLIENT_ID = None,
            STRAVA_CLIENT_SECRET = Some ''secret'', STRAVA_REFRESH_TOKEN = Some ''refresh''\<rparr>"
          1000999 "\<lambda>req. Rejected" "\<lparr>cachedAccessToken = None, requests = []\<rparr>"]
    getAccessToken_missing_message
      [of "\<lparr>STRAVA_ACCESS_TOKEN = Some '''', STRAVA_CLIENT_ID = Some ''id'',
            STRAVA_CLIENT_SECRET = Some ''secret'', STRAVA_REFRESH_TOKEN = None\<rparr>"
          1000999 "\<lambda>req. Rejected" "\<lparr>cachedAccessToken = None, requests = []\<rparr>"]
  by (simp add: truthy_def)

section \<open>The decoder on truncated input\<close>

lemma readChunks_past_end:
  "length encoded \<le> index \<Longrightarrow> readChunks encoded index shift result = (index + 1, result)"
  by (subst readChunks.simps) (simp add: charCodeAt_def)

lemma unzigzag_0: "unzigzag 0 = 0"
  by (simp add: unzigzag_def sar32_def)

lemma decodeLoop_past_end:
  "length encoded \<le> index \<Longrightarrow> decodeLoop encoded index lat lng coordinates = coordinates"
  by (subst decodeLoop.simps) simp

lemma decodeLoop_step:
  assumes "index < length encoded"
    and "readChunks encoded index 0 0 = (index1, result1)"
    and "readChunks encoded index1 0 0 = (index2, result2)"
  shows "decodeLoop encoded index lat lng coordinates =
     decodeLoop encoded index2 (lat + unzigzag result1) (lng + unzigzag result2)
       (coordinates @ [(real_of_int (lat + unzigzag result1) / 100000,
                        real_of_int (lng + unzigzag result2) / 100000)])"
  using assms by (subst decodeLoop.simps) (simp add: Let_def)

lemma decodeLoop_appends:
  "\<exists>ps. decodeLoop encoded index lat lng coordinates = coordinates @ ps
        \<and> (index < length encoded \<longrightarrow> ps \<noteq> [])"
proof (induction encoded index lat lng coordinates rule: decodeLoop.induct)
  case (1 encoded index lat lng coordinates)
  show ?case
  proof (cases "index < length encoded")
    case False
    then show ?thesis by (simp add: decodeLoop_past_end)
  next
    case True
    obtain index1 result1 where r1: "readChunks encoded index 0 0 = (index1, result1)"
      by (cases "readChunks encoded index 0 0")
    obtain index2 result2 where r2: "readChunks encoded index1 0 0 = (index2, result2)"
      by (cases "readChunks encoded index1 0 0")
    let ?lat = "lat + unzigzag result1" and ?lng = "lng + unzigzag result2"
    let ?p = "(real_of_int ?lat / 100000, real_of_int ?lng / 100000)"
    from "1.IH" [OF True r1 [symmetric] refl refl r2 [symmetric] refl refl]
    obtain ps where "decodeLoop encoded index2 ?lat ?lng (coordinates @ [?p])
        = (coordinates @ [?p]) @ ps"
      by blast
    with decodeLoop_step [OF True r1 r2, of lat lng coordinates]
    have "decodeLoop encoded index lat lng coordinates = coordinates @ (?p # ps)"
      by simp
    then show ?thesis by blast
  qed
qed

lemma decodePolyline_empty_iff: "decodePolyline encoded = [] \<longleftrightarrow> encoded = []"
proof
  assume "decodePolyline encoded = []"
  with decodeLoop_appends [of encoded 0 0 0 "[]"] show "encoded = []"
    by (auto simp: decodePolyline_def)
next
  assume "encoded = []"
  then show "decodePolyline encoded = []"
    by (simp add: decodePolyline_def decodeLoop_past_end)
qed

text \<open>
  Claim C6 says that a final pair is produced only if a complete latitude and longitude
  were read, so that no half-pair is emitted. It is not so: the input \<open>_p~iF\<close> holds one
  latitude and nothing else (reading the latitude takes all five characters, and there is
  no character left for the longitude), yet the pair (38.5, 0) is emitted.
\<close>

theorem decodePolyline_half_pair_counterexample:
  "readChunks (fromAscii ''_p~iF'') 0 0 0 = (5, 7700000)
   \<and> charCodeAt (fromAscii ''_p~iF'') 5 = None
   \<and> decodePolyline (fromAscii ''_p~iF'') = [(38.5, 0)]"
  by code_simp

lemma decodeLoop_truncated_last:
  assumes "index < length encoded"
    and "length encoded \<le> fst (readChunks encoded index 0 0)"
  shows "decodeLoop encoded index lat lng coordinates =
     coordinates @ [(real_of_int (lat + unzigzag (snd (readChunks encoded index 0 0))) / 100000,
                     real_of_int lng / 100000)]"
proof -
  obtain index1 result1 where r1: "readChunks encoded index 0 0 = (index1, result1)"
    by (cases "readChunks encoded index 0 0")
  with assms(2) have past: "length encoded \<le> index1" by simp
  then have r2: "readChunks encoded index1 0 0 = (index1 + 1, 0)"
    by (rule readChunks_past_end)
  from decodeLoop_step [OF assms(1) r1 r2, of lat lng coordinates] past r1
  show ?thesis
    by (simp add: unzigzag_0 decodeLoop_past_end)
qed

lemma readChunks_advances: "index < fst (readChunks encoded index shift result)"
proof (induction encoded index shift result rule: readChunks.induct)
  case (1 encoded index shift result)
  show ?case
  proof (cases "charCodeAt encoded index")
    case None
    then show ?thesis by (subst readChunks.simps) simp
  next
    case (Some c)
    show ?thesis
    proof (cases "int c - 63 \<ge> 0x20")
      case True
      with Some 1 have "index + 1 < fst (readChunks encoded (index + 1) (shift + 5)
          (result OR shl32 (word_of_int (int c - 63) AND 0x1f) shift))"
        by simp
      with Some True show ?thesis by (subst readChunks.simps) (simp add: Let_def)
    next
      case False
      with Some show ?thesis by (subst readChunks.simps) (simp add: Let_def)
    qed
  qed
qed

lemma decodeLoop_accumulates:
  "decodeLoop encoded index lat lng coordinates
     = coordinates @ decodeLoop encoded index lat lng []"
proof (induction "length encoded - index" arbitrary: index lat lng coordinates rule: less_induct)
  case less
  show ?case
  proof (cases "index < length encoded")
    case False
    then show ?thesis by (simp add: decodeLoop_past_end)
  next
    case True
    obtain index1 result1 where r1: "readChunks encoded index 0 0 = (index1, result1)"
      by (cases "readChunks encoded index 0 0")
    obtain index2 result2 where r2: "readChunks encoded index1 0 0 = (index2, result2)"
      by (cases "readChunks encoded index1 0 0")
    have "index < index1" using readChunks_advances [of index encoded 0 0] r1 by simp
    moreover have "index1 < index2" using readChunks_advances [of index1 encoded 0 0] r2 by simp
    ultimately have smaller: "length encoded - index2 < length encoded - index"
      using True by simp
    let ?lat = "lat + unzigzag result1" and ?lng = "lng + unzigzag result2"
    let ?p = "(real_of_int ?lat / 100000, real_of_int ?lng / 100000)"
    have "decodeLoop encoded index lat lng coordinates
        = decodeLoop encoded index2 ?lat ?lng (coordinates @ [?p])"
      by (rule decodeLoop_step [OF True r1 r2])
    also have "\<dots> = (coordinates @ [?p]) @ decodeLoop encoded index2 ?lat ?lng []"
      by (rule less [OF smaller])
    also have "\<dots> = coordinates @ decodeLoop encoded index2 ?lat ?lng ([] @ [?p])"
      using less [OF smaller, of ?lat ?lng "[?p]"] by simp
    also have "decodeLoop encoded index2 ?lat ?lng ([] @ [?p]) = decodeLoop encoded index lat lng []"
      by (rule decodeLoop_step [OF True r1 r2, symmetric])
    finally show ?thesis .
  qed
qed

text \<open>
  Claim C6, amended. The decoder emits one pair of a latitude and a longitude for every
  pass of its outer loop, in order, and never a lone latitude: the result is the pairs
  already pushed followed by the pairs of the remaining passes; a pass starts only while
  \<open>index < length\<close>, and the pair of a pass is followed by the pairs decoded from where the
  pass ended. So a non-empty input always yields at least one pair. When the input ends
  during or right after the latitude of a pass, the pair of that pass is still emitted,
  and it is the last one: its latitude is built from the chunks read up to the end of
  the string, and its longitude is the previous longitude (the missing delta is read as 0).
\<close>

theorem decodePolyline_pair_per_pass:
  fixes encoded :: jsstring and index :: nat and lat lng :: int
  defines "index1 \<equiv> fst (readChunks encoded index 0 0)"
    and "lat' \<equiv> lat + unzigzag (snd (readChunks encoded index 0 0))"
  defines "index2 \<equiv> fst (readChunks encoded index1 0 0)"
    and "lng' \<equiv> lng + unzigzag (snd (readChunks encoded index1 0 0))"
  shows "decodePolyline encoded = decodeLoop encoded 0 0 0 []
       \<and> decodeLoop encoded index lat lng coordinates
           = coordinates @ decodeLoop encoded index lat lng []
       \<and> (length encoded \<le> index \<longrightarrow> decodeLoop encoded index lat lng [] = [])
       \<and> (index < length encoded \<longrightarrow>
            decodeLoop encoded index lat lng []
              = (real_of_int lat' / 100000, real_of_int lng' / 100000)
                # decodeLoop encoded index2 lat' lng' [])
       \<and> (index < length encoded \<and> length encoded \<le> index1 \<longrightarrow>
            lng' = lng
            \<and> decodeLoop encoded index lat lng []
                = [(real_of_int lat' / 100000, real_of_int lng / 100000)])
       \<and> (decodePolyline encoded = [] \<longleftrightarrow> encoded = [])"
proof (intro conjI impI)
  show "decodePolyline encoded = decodeLoop encoded 0 0 0 []"
    by (simp add: decodePolyline_def)
  show "decodeLoop encoded index lat lng coordinates
      = coordinates @ decodeLoop encoded index lat lng []"
    by (rule decodeLoop_accumulates)
  show "decodePolyline encoded = [] \<longleftrightarrow> encoded = []"
    by (rule decodePolyline_empty_iff)
next
  assume "length encoded \<le> index"
  then show "decodeLoop encoded index lat lng [] = []"
    by (rule decodeLoop_past_end)
next
  assume more: "index < length encoded"
  have r1: "readChunks encoded index 0 0 = (index1, snd (readChunks encoded index 0 0))"
    and r2: "readChunks encoded index1 0 0 = (index2, snd (readChunks encoded index1 0 0))"
    by (simp_all add: index1_def index2_def)
  have "decodeLoop encoded index lat lng []
      = decodeLoop encoded index2 lat' lng'
          ([] @ [(real_of_int lat' / 100000, real_of_int lng' / 100000)])"
    unfolding lat'_def lng'_def by (rule decodeLoop_step [OF more r1 r2])
  also have "\<dots> = [(real_of_int lat' / 100000, real_of_int lng' / 100000)]
      @ decodeLoop encoded index2 lat' lng' []"
    by (simp add: decodeLoop_accumulates [of _ _ _ _ "[_]"])
  finally show "decodeLoop encoded index lat lng []
      = (real_of_int lat' / 100000, real_of_int lng' / 100000)
        # decodeLoop encoded index2 lat' lng' []"
    by simp
next
  assume a: "index < length encoded \<and> length encoded \<le> index1"
  then have past: "length encoded \<le> index1" by simp
  then have "readChunks encoded index1 0 0 = (index1 + 1, 0)"
    by (rule readChunks_past_end)
  then show "lng' = lng" by (simp add: lng'_def unzigzag_0)
next
  assume a: "index < length encoded \<and> length encoded \<le> index1"
  then have "index < length encoded \<and> length encoded \<le> fst (readChunks encoded index 0 0)"
    by (simp add: index1_def)
  then have "decodeLoop encoded index lat lng [] =
      [] @ [(real_of_int (lat + unzigzag (snd (readChunks encoded index 0 0))) / 100000,
             real_of_int lng / 100000)]"
    using decodeLoop_truncated_last [of index encoded lat lng "[]"] by simp
  then show "decodeLoop encoded index lat lng []
      = [(real_of_int lat' / 100000, real_of_int lng / 100000)]"
    by (simp add: lat'_def)
qed

theorem decodePolyline_pair_per_pass_witness:
  "0 < length (fromAscii ''_p~iF~ps|U_ulL'')
   \<and> 10 < length (fromAscii ''_p~iF~ps|U_ulL'')
   \<and> length (fromAscii ''_p~iF~ps|U_ulL'')
       \<le> fst (readChunks (fromAscii ''_p~iF~ps|U_ulL'') 10 0 0)
   \<and> decodeLoop (fromAscii ''_p~iF~ps|U_ulL'') 10 3850000 (- 12020000) []
       = [(40.7, - 120.2)]
   \<and> decodePolyline (fromAscii ''_p~iF~ps|U_ulL'') = [(38.5, - 120.2), (40.7, - 120.2)]"
proof -
  let ?s = "fromAscii ''_p~iF~ps|U_ulL''"
  have r0: "readChunks ?s 0 0 0 = (5, 7700000)"
    by code_simp
  have r5: "readChunks ?s 5 0 0 = (10, 24039999)"
    by code_simp
  have r10: "readChunks ?s 10 0 0 = (14, 440000)"
    by code_simp
  have u: "unzigzag 7700000 = 3850000" "unzigzag 24039999 = - 12020000"
    "unzigzag 440000 = 220000"
    by code_simp+
  have l: "length ?s = 14"
    by (simp add: fromAscii_def)
  have first: "decodePolyline ?s = (38.5, - 120.2) # decodeLoop ?s 10 3850000 (- 12020000) []"
    using decodePolyline_pair_per_pass
        [where encoded = ?s and index = 0 and lat = 0 and lng = 0 and coordinates = "[]"]
      r0 r5 u l
    by simp
  have r14: "readChunks ?s 14 0 0 = (15, 0)"
    by code_simp
  have last: "decodeLoop ?s 10 3850000 (- 12020000) [] = [(40.7, - 120.2)]"
    using decodePolyline_pair_per_pass
        [where encoded = ?s and index = 10 and lat = 3850000 and lng = "- 12020000"
           and coordinates = "[]"]
      r10 r14 u l
    by (simp add: decodeLoop_past_end)
  from first last l r10 show ?thesis
    by simp
qed


section \<open>The projection\<close>

lemma Math_min_Min: "xs \<noteq> [] \<Longrightarrow> Math_min xs = Min (set xs)"
proof (cases xs)
  case (Cons a list)
  then show ?thesis using Min.set_eq_fold [of a list] by simp
qed simp

lemma Math_max_Max: "xs \<noteq> [] \<Longrightarrow> Math_max xs = Max (set xs)"
proof (cases xs)
  case (Cons a list)
  then show ?thesis using Max.set_eq_fold [of a list] by simp
qed simp

lemma Math_min_le: "v \<in> set xs \<Longrightarrow> Math_min xs \<le> v"
  by (cases "xs = []") (simp_all add: Math_min_Min)

lemma Math_max_ge: "v \<in> set xs \<Longrightarrow> v \<le> Math_max xs"
  by (cases "xs = []") (simp_all add: Math_max_Max)

lemma Math_min_in: "xs \<noteq> [] \<Longrightarrow> Math_min xs \<in> set xs"
  by (simp add: Math_min_Min)

lemma Math_max_in: "xs \<noteq> [] \<Longrightarrow> Math_max xs \<in> set xs"
  by (simp add: Math_max_Max)

lemma Math_min_le_max: "xs \<noteq> [] \<Longrightarrow> Math_min xs \<le> Math_max xs"
  using Math_min_le [OF Math_max_in] by simp

lemma Math_max_eqI:
  assumes "v \<in> set xs" and "\<And>u. u \<in> set xs \<Longrightarrow> u \<le> v"
  shows "Math_max xs = v"
proof -
  from assms(1) have "xs \<noteq> []" by auto
  then have "Math_max xs = Max (set xs)" by (rule Math_max_Max)
  also have "\<dots> = v" using assms by (intro Max_eqI) simp_all
  finally show ?thesis .
qed

lemma Math_min_eqI:
  assumes "v \<in> set xs" and "\<And>u. u \<in> set xs \<Longrightarrow> v \<le> u"
  shows "Math_min xs = v"
proof -
  from assms(1) have "xs \<noteq> []" by auto
  then have "Math_min xs = Min (set xs)" by (rule Math_min_Min)
  also have "\<dots> = v" using assms by (intro Min_eqI) simp_all
  finally show ?thesis .
qed

text \<open>Extremes of a list under an increasing and under a decreasing affine map.\<close>

lemma Math_max_incr:
  assumes "xs \<noteq> []" and "0 \<le> c"
  shows "Math_max (map (\<lambda>v. a + (v - m) * c) xs) = a + (Math_max xs - m) * c"
proof (rule Math_max_eqI)
  show "a + (Math_max xs - m) * c \<in> set (map (\<lambda>v. a + (v - m) * c) xs)"
    using Math_max_in [OF assms(1)] by auto
next
  fix u assume "u \<in> set (map (\<lambda>v. a + (v - m) * c) xs)"
  then obtain v where v: "v \<in> set xs" "u = a + (v - m) * c" by auto
  from v(1) have "v - m \<le> Math_max xs - m" using Math_max_ge by simp
  then have "(v - m) * c \<le> (Math_max xs - m) * c"
    using assms(2) by (rule mult_right_mono)
  with v(2) show "u \<le> a + (Math_max xs - m) * c" by simp
qed

lemma Math_min_incr:
  assumes "xs \<noteq> []" and "0 \<le> c"
  shows "Math_min (map (\<lambda>v. a + (v - m) * c) xs) = a + (Math_min xs - m) * c"
proof (rule Math_min_eqI)
  show "a + (Math_min xs - m) * c \<in> set (map (\<lambda>v. a + (v - m) * c) xs)"
    using Math_min_in [OF assms(1)] by auto
next
  fix u assume "u \<in> set (map (\<lambda>v. a + (v - m) * c) xs)"
  then obtain v where v: "v \<in> set xs" "u = a + (v - m) * c" by auto
  from v(1) have "Math_min xs - m \<le> v - m" using Math_min_le by simp
  then have "(Math_min xs - m) * c \<le> (v - m) * c"
    using assms(2) by (rule mult_right_mono)
  with v(2) show "a + (Math_min xs - m) * c \<le> u" by simp
qed

lemma Math_max_decr:
  assumes "xs \<noteq> []" and "0 \<le> c"
  shows "Math_max (map (\<lambda>v. a + (m - v) * c) xs) = a + (m - Math_min xs) * c"
proof (rule Math_max_eqI)
  show "a + (m - Math_min xs) * c \<in> set (map (\<lambda>v. a + (m - v) * c) xs)"
    using Math_min_in [OF assms(1)] by auto
next
  fix u assume "u \<in> set (map (\<lambda>v. a + (m - v) * c) xs)"
  then obtain v where v: "v \<in> set xs" "u = a + (m - v) * c" by auto
  from v(1) have "m - v \<le> m - Math_min xs" using Math_min_le by simp
  then have "(m - v) * c \<le> (m - Math_min xs) * c"
    using assms(2) by (rule mult_right_mono)
  with v(2) show "u \<le> a + (m - Math_min xs) * c" by simp
qed

lemma Math_min_decr:
  assumes "xs \<noteq> []" and "0 \<le> c"
  shows "Math_min (map (\<lambda>v. a + (m - v) * c) xs) = a + (m - Math_max xs) * c"
proof (rule Math_min_eqI)
  show "a + (m - Math_max xs) * c \<in> set (map (\<lambda>v. a + (m - v) * c) xs)"
    using Math_max_in [OF assms(1)] by auto
next
  fix u assume "u \<in> set (map (\<lambda>v. a + (m - v) * c) xs)"
  then obtain v where v: "v \<in> set xs" "u = a + (m - v) * c" by auto
  from v(1) have "m - Math_max xs \<le> m - v" using Math_max_ge by simp
  then have "(m - Math_max xs) * c \<le> (m - v) * c"
    using assms(2) by (rule mult_right_mono)
  with v(2) show "a + (m - Math_max xs) * c \<le> u" by simp
qed

text \<open>The local constants, read off the definition.\<close>

lemma locals_bbox:
  "minX (buildSvgPath_locals points width height padding) = Math_min (map snd points)"
  "maxX (buildSvgPath_locals points width height padding) = Math_max (map snd points)"
  "minY (buildSvgPath_locals points width height padding) = Math_min (map fst points)"
  "maxY (buildSvgPath_locals points width height padding) = Math_max (map fst points)"
  by (simp_all add: buildSvgPath_locals_def Let_def)

lemma locals_spans:
  "dx (buildSvgPath_locals points width height padding) =
     orElse (Math_max (map snd points) - Math_min (map snd points)) 1"
  "dy (buildSvgPath_locals points width height padding) =
     orElse (Math_max (map fst points) - Math_min (map fst points)) 1"
  "innerW (buildSvgPath_locals points width height padding) = max 1 (width - padding * 2)"
  "innerH (buildSvgPath_locals points width height padding) = max 1 (height - padding * 2)"
  by (simp_all add: buildSvgPath_locals_def Let_def)

lemma locals_scale:
  "scale (buildSvgPath_locals points width height padding) =
     min (innerW (buildSvgPath_locals points width height padding)
            / dx (buildSvgPath_locals points width height padding))
         (innerH (buildSvgPath_locals points width height padding)
            / dy (buildSvgPath_locals points width height padding))"
  by (simp add: buildSvgPath_locals_def Let_def)


lemma locals_mapped:
  "mapped (buildSvgPath_locals points width height padding) =
     map (\<lambda>(lat, lng).
            (offsetX (buildSvgPath_locals points width height padding)
               + (lng - minX (buildSvgPath_locals points width height padding))
                 * scale (buildSvgPath_locals points width height padding),
             offsetY (buildSvgPath_locals points width height padding)
               + (maxY (buildSvgPath_locals points width height padding) - lat)
                 * scale (buildSvgPath_locals points width height padding))) points"
  by (simp add: buildSvgPath_locals_def Let_def)

lemma orElse_span_pos: "0 \<le> s \<Longrightarrow> 0 < orElse s 1"
  by (simp add: orElse_def)


lemma locals_dx_pos:
  "points \<noteq> [] \<Longrightarrow> 0 < dx (buildSvgPath_locals points width height padding)"
  using Math_min_le_max [of "map snd points"] by (simp add: locals_spans orElse_span_pos)

lemma locals_dy_pos:
  "points \<noteq> [] \<Longrightarrow> 0 < dy (buildSvgPath_locals points width height padding)"
  using Math_min_le_max [of "map fst points"] by (simp add: locals_spans orElse_span_pos)

lemma locals_scale_pos:
  assumes "points \<noteq> []"
  shows "0 < scale (buildSvgPath_locals points width height padding)"
proof -
  have "0 < innerW (buildSvgPath_locals points width height padding)"
    and "0 < innerH (buildSvgPath_locals points width height padding)"
    by (simp_all add: locals_spans)
  with locals_dx_pos [OF assms] locals_dy_pos [OF assms] show ?thesis
    by (subst locals_scale) simp
qed



lemma locals_mapped_fst:
  "map fst (mapped (buildSvgPath_locals points width height padding)) =
     map (\<lambda>v. offsetX (buildSvgPath_locals points width height padding)
                + (v - minX (buildSvgPath_locals points width height padding))
                  * scale (buildSvgPath_locals points width height padding))
         (map snd points)"
  by (subst locals_mapped) (simp add: case_prod_unfold comp_def)

lemma locals_mapped_snd:
  "map snd (mapped (buildSvgPath_locals points width height padding)) =
     map (\<lambda>v. offsetY (buildSvgPath_locals points width height padding)
                + (maxY (buildSvgPath_locals points width height padding) - v)
                  * scale (buildSvgPath_locals points width height padding))
         (map fst points)"
  by (subst locals_mapped) (simp add: case_prod_unfold comp_def)

text \<open>
  Claim C3. For every point list whose longitude span and latitude span are both nonzero,
  one positive scale multiplies both axes: the projected x-span is the scale times the
  longitude span, the projected y-span is the scale times the latitude span, and so the
  ratio of the projected spans is the ratio of the longitude span to the latitude span
  (in exact arithmetic).
\<close>

theorem buildSvgPath_uniform_scale:
  fixes points :: "(real \<times> real) list" and width height padding :: real
  defines "L \<equiv> buildSvgPath_locals points width height padding"
  assumes "points \<noteq> []" and "maxX L - minX L \<noteq> 0" and "maxY L - minY L \<noteq> 0"
  shows "0 < scale L
       \<and> Math_max (map fst (mapped L)) - Math_min (map fst (mapped L))
           = scale L * (maxX L - minX L)
       \<and> Math_max (map snd (mapped L)) - Math_min (map snd (mapped L))
           = scale L * (maxY L - minY L)
       \<and> (Math_max (map fst (mapped L)) - Math_min (map fst (mapped L)))
           / (Math_max (map snd (mapped L)) - Math_min (map snd (mapped L)))
           = (maxX L - minX L) / (maxY L - minY L)"
proof -
  have pos: "0 < scale L"
    unfolding L_def using assms(2) by (rule locals_scale_pos)
  have ne: "map snd points \<noteq> []" "map fst points \<noteq> []"
    using assms(2) by simp_all
  have fst_eq: "map fst (mapped L) =
      map (\<lambda>v. offsetX L + (v - minX L) * scale L) (map snd points)"
    unfolding L_def by (rule locals_mapped_fst)
  have snd_eq: "map snd (mapped L) =
      map (\<lambda>v. offsetY L + (maxY L - v) * scale L) (map fst points)"
    unfolding L_def by (rule locals_mapped_snd)
  have bb: "maxX L = Math_max (map snd points)" "minX L = Math_min (map snd points)"
    "maxY L = Math_max (map fst points)" "minY L = Math_min (map fst points)"
    unfolding L_def by (simp_all add: locals_bbox)
  have c: "0 \<le> scale L" using pos by simp
  have "Math_max (map fst (mapped L)) = offsetX L + (maxX L - minX L) * scale L"
    unfolding fst_eq bb(1) by (rule Math_max_incr [OF ne(1) c])
  moreover have "Math_min (map fst (mapped L)) = offsetX L + (minX L - minX L) * scale L"
    unfolding fst_eq by (subst (2) bb(2)) (rule Math_min_incr [OF ne(1) c])
  ultimately have xspan: "Math_max (map fst (mapped L)) - Math_min (map fst (mapped L))
      = scale L * (maxX L - minX L)"
    by simp
  have "Math_max (map snd (mapped L)) = offsetY L + (maxY L - minY L) * scale L"
    unfolding snd_eq bb(4) by (rule Math_max_decr [OF ne(2) c])
  moreover have "Math_min (map snd (mapped L)) = offsetY L + (maxY L - maxY L) * scale L"
    unfolding snd_eq by (subst (3) bb(3)) (rule Math_min_decr [OF ne(2) c])
  ultimately have yspan: "Math_max (map snd (mapped L)) - Math_min (map snd (mapped L))
      = scale L * (maxY L - minY L)"
    by simp
  from pos assms(4) have "(scale L * (maxX L - minX L)) / (scale L * (maxY L - minY L))
      = (maxX L - minX L) / (maxY L - minY L)"
    by simp
  with pos xspan yspan show ?thesis by simp
qed

theorem buildSvgPath_uniform_scale_witness:
  "scale (buildSvgPath_locals [(0, 0), (1, 2)] 640 360 20) = 300
   \<and> (Math_max (map fst (mapped (buildSvgPath_locals [(0, 0), (1, 2)] 640 360 20)))
        - Math_min (map fst (mapped (buildSvgPath_locals [(0, 0), (1, 2)] 640 360 20))))
      / (Math_max (map snd (mapped (buildSvgPath_locals [(0, 0), (1, 2)] 640 360 20)))
        - Math_min (map snd (mapped (buildSvgPath_locals [(0, 0), (1, 2)] 640 360 20))))
     = 2"
proof -
  have s: "scale (buildSvgPath_locals [(0, 0), (1, 2)] 640 360 20) = 300"
    by (simp add: locals_scale locals_spans orElse_def)
  show ?thesis
    using buildSvgPath_uniform_scale [of "[(0, 0), (1, 2)]" 640 360 20] s
    by (simp add: locals_bbox)
qed















text \<open>
  Claim C9. With fewer than two points the result is the empty path (and no bounding box).
  For every input the two divisors of the scale, \<open>dx\<close> and \<open>dy\<close>, are nonzero: a span of
  zero has been replaced by 1.
\<close>

theorem buildSvgPath_degenerate:
  fixes points :: "(real \<times> real) list" and width height padding :: real
  defines "L \<equiv> buildSvgPath_locals points width height padding"
  shows "(length points < 2 \<longrightarrow>
            buildSvgPath points width height padding = \<lparr>d = [], bbox = None\<rparr>)
       \<and> dx L \<noteq> 0 \<and> dy L \<noteq> 0
       \<and> (maxX L - minX L = 0 \<longrightarrow> dx L = 1)
       \<and> (maxY L - minY L = 0 \<longrightarrow> dy L = 1)
       \<and> scale L = min (innerW L / dx L) (innerH L / dy L)"
proof (intro conjI impI)
  assume "length points < 2"
  then show "buildSvgPath points width height padding = \<lparr>d = [], bbox = None\<rparr>"
    by (simp add: buildSvgPath_def)
next
  show "dx L \<noteq> 0" unfolding L_def by (simp add: locals_spans orElse_def)
next
  show "dy L \<noteq> 0" unfolding L_def by (simp add: locals_spans orElse_def)
next
  assume "maxX L - minX L = 0"
  then show "dx L = 1" unfolding L_def by (simp add: locals_spans locals_bbox orElse_def)
next
  assume "maxY L - minY L = 0"
  then show "dy L = 1" unfolding L_def by (simp add: locals_spans locals_bbox orElse_def)
next
  show "scale L = min (innerW L / dx L) (innerH L / dy L)"
    unfolding L_def by (rule locals_scale)
qed

theorem buildSvgPath_degenerate_witness:
  "buildSvgPath [(1, 2)] 640 360 20 = \<lparr>d = [], bbox = None\<rparr>
   \<and> dx (buildSvgPath_locals [(0, 3), (0, 3)] 640 360 20) = 1
   \<and> dy (buildSvgPath_locals [(0, 3), (0, 3)] 640 360 20) = 1
   \<and> scale (buildSvgPath_locals [(0, 3), (0, 3)] 640 360 20) = 320"
  using buildSvgPath_degenerate [of "[(1, 2)]" 640 360 20]
    buildSvgPath_degenerate [of "[(0, 3), (0, 3)]" 640 360 20]
  by (simp add: locals_bbox locals_spans)

end
